theory Spec2Isabelle
  imports Main
begin

unbundle bit_operations_syntax

section \<open>Data model of main.go\<close>

text \<open>
  Go strings are byte sequences and \<open>len\<close> counts bytes, so a Go string is a
  \<^typ>\<open>string\<close> (a list of 8-bit characters). Go's \<open>int\<close> fields are modelled as
  \<^typ>\<open>int\<close>; the only arithmetic the program does on them is written out where it
  could wrap around.
\<close>

record Conf =
  SavePath :: string
  Socks :: string
  Retry :: int
  ThreadNum :: int

record Image =
  Name :: string
  Hash :: string
  HasWebp :: int
  HasAvif :: int

record Gallery =
  Id_gallery :: string
  Title :: string
  JpTitle :: string
  Lang :: string
  Files :: "Image list"
  Url :: string

record Job =
  Image_job :: Image
  Gallery_job :: Gallery
  SavePath_job :: string
  Conf_job :: Conf

record WriteJob =
  Content :: string
  FileName :: string

section \<open>Go library functions used by the program\<close>

subsection \<open>Slicing\<close>

text \<open>
  \<open>s[lo:hi]\<close> on a string. Go panics (slice bounds out of range) unless
  \<open>0 \<le> lo \<le> hi \<le> len(s)\<close>; the panic is the value \<open>None\<close>.
\<close>

definition slice :: "string \<Rightarrow> int \<Rightarrow> int \<Rightarrow> string option" where
  "slice s lo hi =
     (if 0 \<le> lo \<and> lo \<le> hi \<and> hi \<le> int (length s)
      then Some (take (nat (hi - lo)) (drop (nat lo) s))
      else None)"

subsection \<open>filepath.Ext\<close>

definition IsPathSeparator :: "bool \<Rightarrow> char \<Rightarrow> bool" where
  "IsPathSeparator windows c = (c = CHR ''/'' \<or> (windows \<and> c = CHR 0x5C))"

text \<open>
  \<open>for i := len(path) - 1; i >= 0 && !os.IsPathSeparator(path[i]); i-- {
       if path[i] == '.' { return path[i:] } }; return ""\<close>.
  The second argument of \<open>Ext_loop\<close> is \<open>i + 1\<close>.
\<close>

fun Ext_loop :: "bool \<Rightarrow> string \<Rightarrow> nat \<Rightarrow> string" where
  "Ext_loop windows path 0 = []"
| "Ext_loop windows path (Suc i) =
     (if IsPathSeparator windows (path ! i) then []
      else if path ! i = CHR ''.'' then drop i path
      else Ext_loop windows path i)"

definition Ext :: "bool \<Rightarrow> string \<Rightarrow> string" where
  "Ext windows path = Ext_loop windows path (length path)"

subsection \<open>strconv.ParseInt\<close>

datatype NumError = ErrSyntax | ErrRange

text \<open>\<open>lower(c) = c | ('x' - 'X')\<close> on a byte.\<close>

definition lower :: "nat \<Rightarrow> nat" where
  "lower c = c OR 32"

text \<open>
  The digit loop of \<open>strconv.ParseUint\<close> for a base between 2 and 36 and bit size 64
  (the underscore case only exists for base 0). \<open>n\<close> is the value read so far;
  \<open>cutoff = maxUint64 / base + 1\<close> and \<open>maxVal = 2^64 - 1\<close>.
\<close>

definition maxUint64 :: nat where
  "maxUint64 = 2 ^ 64 - 1"

definition digit_of :: "char \<Rightarrow> nat option" where
  "digit_of c =
     (let b = (of_char c :: nat) in
      if 48 \<le> b \<and> b \<le> 57 then Some (b - 48)
      else if 97 \<le> lower b \<and> lower b \<le> 122 then Some (lower b - 97 + 10)
      else None)"

fun ParseUint_loop :: "nat \<Rightarrow> string \<Rightarrow> nat \<Rightarrow> NumError + nat" where
  "ParseUint_loop base [] n = Inr n"
| "ParseUint_loop base (c # cs) n =
     (case digit_of c of
        None \<Rightarrow> Inl ErrSyntax
      | Some d \<Rightarrow>
          if d \<ge> base then Inl ErrSyntax
          else if n \<ge> maxUint64 div base + 1 then Inl ErrRange
          else if n * base + d > maxUint64 then Inl ErrRange
          else ParseUint_loop base cs (n * base + d))"

definition ParseUint :: "string \<Rightarrow> nat \<Rightarrow> NumError + nat" where
  "ParseUint s base = (if s = [] then Inl ErrSyntax else ParseUint_loop base s 0)"

text \<open>
  \<open>strconv.ParseInt(s, base, 64)\<close>: an optional sign, then \<open>ParseUint\<close>, then the
  range check against \<open>cutoff = 2^63\<close>. The program uses the value only when the
  error is nil, so the result is the error or the value.
\<close>

definition ParseInt :: "string \<Rightarrow> nat \<Rightarrow> NumError + int" where
  "ParseInt s base =
     (if s = [] then Inl ErrSyntax
      else
        let neg = (hd s = CHR ''-'');
            s' = (if hd s = CHR ''+'' \<or> hd s = CHR ''-'' then tl s else s)
        in case ParseUint s' base of
             Inl e \<Rightarrow> Inl e
           | Inr un \<Rightarrow>
               if \<not> neg \<and> un \<ge> 2 ^ 63 then Inl ErrRange
               else if neg \<and> un > 2 ^ 63 then Inl ErrRange
               else Inr (if neg then - int un else int un))"

subsection \<open>Integer remainder and integer-to-string conversion\<close>

text \<open>Go's \<open>%\<close> truncates towards zero: the result has the sign of the dividend.\<close>

definition go_rem :: "int \<Rightarrow> int \<Rightarrow> int" where
  "go_rem a b = sgn a * (\<bar>a\<bar> mod \<bar>b\<bar>)"

text \<open>
  \<open>string(v)\<close> for an integer \<open>v\<close> is the UTF-8 encoding of the code point \<open>v\<close>;
  a value that is no valid code point (negative, a surrogate, above 0x10FFFF) gives
  the encoding of U+FFFD.
\<close>

definition string_of_rune :: "int \<Rightarrow> string" where
  "string_of_rune v =
     (let r = (if v < 0 \<or> v > 0x10FFFF \<or> (0xD800 \<le> v \<and> v \<le> 0xDFFF) then 0xFFFD else v)
      in if r \<le> 0x7F then [char_of r]
         else if r \<le> 0x7FF then [char_of (0xC0 + r div 64), char_of (0x80 + r mod 64)]
         else if r \<le> 0xFFFF then
           [char_of (0xE0 + r div 4096), char_of (0x80 + (r div 64) mod 64),
            char_of (0x80 + r mod 64)]
         else
           [char_of (0xF0 + r div 262144), char_of (0x80 + (r div 4096) mod 64),
            char_of (0x80 + (r div 64) mod 64), char_of (0x80 + r mod 64)])"

section \<open>Pure functions of the program\<close>

subsection \<open>Unique\<close>

text \<open>
  The loop of \<open>Unique\<close>: \<open>keys\<close> is the \<open>map[string]struct{}\<close> of strings seen,
  \<open>list\<close> the slice being appended to.
\<close>

fun Unique_loop :: "(string \<rightharpoonup> unit) \<Rightarrow> string list \<Rightarrow> string list \<Rightarrow> string list" where
  "Unique_loop keys list [] = list"
| "Unique_loop keys list (str # strSlice) =
     (if keys str = None
      then Unique_loop (keys(str \<mapsto> ())) (list @ [str]) strSlice
      else Unique_loop keys list strSlice)"

definition Unique :: "string list \<Rightarrow> string list" where
  "Unique strSlice = Unique_loop Map.empty [] strSlice"

subsection \<open>ImageUrl\<close>

text \<open>
  \<open>windows\<close> says whether \<open>runtime.GOOS\<close> is \<open>windows\<close> (it decides the path
  separators of \<open>filepath.Ext\<close>). The result is \<open>None\<close> when one of the two slice
  expressions panics.
\<close>

definition ImageUrl :: "bool \<Rightarrow> Image \<Rightarrow> string option" where
  "ImageUrl windows img =
     (let n = int (length (Hash img)) in
      case slice (Hash img) (n - 1) n of
        None \<Rightarrow> None
      | Some h1 \<Rightarrow>
         (case slice (Hash img) (n - 3) (n - 1) of
            None \<Rightarrow> None
          | Some h2 \<Rightarrow>
             let ext0 = Ext windows (Name img);
                 directory = (if HasAvif img = 1 then ''avif''
                              else if HasWebp img = 1 then ''webp'' else ''images'');
                 ext = (if HasAvif img = 1 then ''.avif''
                        else if HasWebp img = 1 then ''.webp'' else ext0);
                 retval = (if HasAvif img = 1 then ''a''
                           else if HasWebp img = 1 then ''a'' else ''b'');
                 subDomain =
                   (case ParseInt h2 16 of
                      Inl err \<Rightarrow> ''a''
                    | Inr g \<Rightarrow>
                        let numberOfFrontends = (if g < 0x30 then 2 else 3);
                            g' = (if g < 0x09 then 1 else g);
                            char = 97 + go_rem g' numberOfFrontends
                        in string_of_rune char @ retval)
             in Some (''https://'' @ subDomain @ ''.hitomi.la/'' @ directory @ ''/''
                      @ h1 @ ''/'' @ h2 @ ''/'' @ Hash img @ ext)))"

section \<open>The shard algorithm as the specification words it\<close>

text \<open>
  The specification's description of the URL derivation, written down independently of
  \<open>ImageUrl\<close>: \<open>h2\<close> read as a base-16 number \<open>g\<close>, the shard count, the clamp, the
  subdomain letter and its suffix, the directory and the extension.
\<close>

definition is_hex :: "char \<Rightarrow> bool" where
  "is_hex c = (c \<in> set ''0123456789abcdefABCDEF'')"

definition hexval :: "char \<Rightarrow> nat" where
  "hexval c =
     (if c \<in> set ''0123456789'' then of_char c - of_char CHR ''0''
      else if c \<in> set ''abcdef'' then of_char c - of_char CHR ''a'' + 10
      else of_char c - of_char CHR ''A'' + 10)"

definition parse16 :: "string \<Rightarrow> int" where
  "parse16 s = foldl (\<lambda>n c. 16 * n + int (hexval c)) 0 s"

definition spec_shardCount :: "int \<Rightarrow> int" where
  "spec_shardCount g = (if g < 0x30 then 2 else 3)"

definition spec_clamp :: "int \<Rightarrow> int" where
  "spec_clamp g = (if g < 0x09 then 1 else g)"

definition spec_letter :: "int \<Rightarrow> char" where
  "spec_letter g = char_of (of_char CHR ''a'' + spec_clamp g mod spec_shardCount g)"

definition spec_suffix :: "Image \<Rightarrow> char" where
  "spec_suffix img = (if HasAvif img = 1 \<or> HasWebp img = 1 then CHR ''a'' else CHR ''b'')"

definition spec_directory :: "Image \<Rightarrow> string" where
  "spec_directory img =
     (if HasAvif img = 1 then ''avif'' else if HasWebp img = 1 then ''webp'' else ''images'')"

definition spec_extension :: "bool \<Rightarrow> Image \<Rightarrow> string" where
  "spec_extension windows img =
     (if HasAvif img = 1 then ''.avif'' else if HasWebp img = 1 then ''.webp''
      else Ext windows (Name img))"


section \<open>More library functions: strings\<close>

text \<open>\<open>Eol\<close>: the line separator of the platform.\<close>

definition Eol :: "bool \<Rightarrow> string" where
  "Eol windows = (if windows then [CHR 0x0D, CHR 0x0A] else [CHR 0x0A])"

text \<open>
  \<open>strings.Split(s, sep)\<close> for a non-empty separator: \<open>s\<close> is cut at every
  occurrence of \<open>sep\<close>, scanning from the left, occurrences not overlapping; the
  result always has at least one element. \<open>cur\<close> is the piece being read. The program
  only splits at \<open>"-"\<close>, \<open>"."\<close> and \<open>Eol()\<close>; for an empty separator (where Go cuts
  after every UTF-8 sequence) the function below returns the string whole.
\<close>

function Split_loop :: "string \<Rightarrow> string \<Rightarrow> string \<Rightarrow> string list" where
  "Split_loop sep cur [] = [cur]"
| "Split_loop sep cur (c # cs) =
     (if sep \<noteq> [] \<and> take (length sep) (c # cs) = sep
      then cur # Split_loop sep [] (drop (length sep) (c # cs))
      else Split_loop sep (cur @ [c]) cs)"
  by pat_completeness auto
termination
  by (relation "measure (\<lambda>(sep, cur, s). length s)") auto

definition Split :: "string \<Rightarrow> string \<Rightarrow> string list" where
  "Split s sep = Split_loop sep [] s"

text \<open>
  \<open>strings.ReplaceAll(s, old, new)\<close> for a non-empty \<open>old\<close>: every occurrence, from
  the left, not overlapping. The program only calls it with a non-empty \<open>old\<close>.
\<close>

function ReplaceAll :: "string \<Rightarrow> string \<Rightarrow> string \<Rightarrow> string" where
  "ReplaceAll [] old new = []"
| "ReplaceAll (c # cs) old new =
     (if old \<noteq> [] \<and> take (length old) (c # cs) = old
      then new @ ReplaceAll (drop (length old) (c # cs)) old new
      else c # ReplaceAll cs old new)"
  by pat_completeness auto
termination
  by (relation "measure (\<lambda>(s, old, new). length s)") auto

text \<open>\<open>strconv.Itoa\<close>: the decimal digits of an integer.\<close>

fun Itoa_nat :: "nat \<Rightarrow> string" where
  "Itoa_nat n =
     (if n < 10 then [char_of (48 + n)]
      else Itoa_nat (n div 10) @ [char_of (48 + n mod 10)])"

definition Itoa :: "int \<Rightarrow> string" where
  "Itoa i = (if i < 0 then CHR ''-'' # Itoa_nat (nat (- i)) else Itoa_nat (nat i))"

subsection \<open>ValidFileName\<close>

definition illegalChars :: "string list" where
  "illegalChars = ['':'', ''/'', [CHR 0x5C], ''?'', ''*'', [CHR 0x22], ''<'', ''>'', ''|'']"

definition ValidFileName :: "string \<Rightarrow> string" where
  "ValidFileName path = foldl (\<lambda>p illegalChar. ReplaceAll p illegalChar []) path illegalChars"


declare Itoa_nat.simps [simp del]

section \<open>The world outside the program\<close>

subsection \<open>File system\<close>

text \<open>
  Paths are compared as strings. A path names a directory, a regular file (its
  permission bits and its bytes) or nothing.
\<close>

datatype oserror = EEXIST | ENOENT | ENOTDIR | EISDIR | EIO string

record fileobj =
  perm_bits :: nat
  bytes :: string

record filesys =
  fs_dirs :: "string \<Rightarrow> bool"
  fs_files :: "string \<rightharpoonup> fileobj"

text \<open>\<open>os.IsExist\<close>, and the text \<open>log.Print\<close> shows for a failed \<open>mkdir\<close>.\<close>

definition IsExist :: "oserror \<Rightarrow> bool" where
  "IsExist e = (e = EEXIST)"

definition errno_text :: "oserror \<Rightarrow> string" where
  "errno_text e =
     (case e of EEXIST \<Rightarrow> ''file exists'' | ENOENT \<Rightarrow> ''no such file or directory''
      | ENOTDIR \<Rightarrow> ''not a directory'' | EISDIR \<Rightarrow> ''is a directory'' | EIO m \<Rightarrow> m)"

definition PathError :: "string \<Rightarrow> string \<Rightarrow> oserror \<Rightarrow> string" where
  "PathError op path e = op @ '' '' @ path @ '': '' @ errno_text e"

definition ModeDir :: nat where
  "ModeDir = 2 ^ 31"

definition ModeAppend :: nat where
  "ModeAppend = 2 ^ 30"

record openflags =
  O_CREATE :: bool
  O_TRUNC :: bool
  O_APPEND :: bool

subsection \<open>Network\<close>

record Request =
  uri :: string
  http_method :: string
  Referer :: string
  UserAgent :: string

text \<open>
  What one \<open>Client.Do\<close> leaves behind: the error it returns and the status code,
  content length and body of the response object.
\<close>

record Response =
  res_err :: "string option"
  StatusCode :: int
  ContentLength :: int
  Body :: string

subsection \<open>Environment\<close>

text \<open>
  Everything the program asks of the outside is a field of the environment. The two
  network functions also take the number of requests of their kind made before, so
  that the same request can be answered differently the next time.
  \<open>Unmarshal\<close> is \<open>json.Unmarshal\<close> into a \<open>Gallery\<close>; \<open>mkdir_err\<close>, \<open>open_err\<close>
  and \<open>write_err\<close> say when the operating system refuses to create a directory, to
  open a file for writing, or stops a write after some bytes.
\<close>

record env =
  GOOS_windows :: bool
  NumCPU :: int
  ClientGet :: "nat \<Rightarrow> string \<Rightarrow> int \<times> string \<times> string option"
  ClientDo :: "nat \<Rightarrow> Request \<Rightarrow> Response"
  Unmarshal :: "string \<Rightarrow> string + Gallery"
  mkdir_err :: "string \<Rightarrow> oserror option"
  open_err :: "string \<Rightarrow> oserror option"
  write_err :: "string \<Rightarrow> (nat \<times> oserror) option"

subsection \<open>os.MkdirAll and ioutil.WriteFile\<close>

text \<open>
  \<open>os.MkdirAll(path, perm)\<close>: if \<open>path\<close> is already a directory it does nothing and
  returns nil; if it is something else the error is ENOTDIR; otherwise the directory
  and its parents are made, unless the system refuses.
\<close>

definition MkdirAll :: "env \<Rightarrow> filesys \<Rightarrow> string \<Rightarrow> nat \<Rightarrow> filesys \<times> oserror option" where
  "MkdirAll e fsys path perm =
     (if fs_dirs fsys path then (fsys, None)
      else if fs_files fsys path \<noteq> None then (fsys, Some ENOTDIR)
      else case mkdir_err e path of
             Some er \<Rightarrow> (fsys, Some er)
           | None \<Rightarrow> (fsys\<lparr>fs_dirs := (fs_dirs fsys)(path := True)\<rparr>, None))"

text \<open>
  \<open>os.OpenFile(name, O_WRONLY | flags, perm)\<close>: a missing file is created when
  \<open>O_CREATE\<close> is set, with the permission bits of \<open>perm\<close> (its low nine bits); an
  existing file is emptied when \<open>O_TRUNC\<close> is set.
\<close>

definition OpenFile ::
  "env \<Rightarrow> filesys \<Rightarrow> string \<Rightarrow> openflags \<Rightarrow> nat \<Rightarrow> filesys \<times> oserror option" where
  "OpenFile e fsys name flags perm =
     (if fs_dirs fsys name then (fsys, Some EISDIR)
      else case open_err e name of
             Some er \<Rightarrow> (fsys, Some er)
           | None \<Rightarrow>
              (case fs_files fsys name of
                 None \<Rightarrow>
                   if O_CREATE flags
                   then (fsys\<lparr>fs_files := (fs_files fsys)
                            (name \<mapsto> \<lparr>perm_bits = perm AND 511, bytes = []\<rparr>)\<rparr>, None)
                   else (fsys, Some ENOENT)
               | Some f \<Rightarrow>
                   if O_TRUNC flags
                   then (fsys\<lparr>fs_files := (fs_files fsys)(name \<mapsto> f\<lparr>bytes := []\<rparr>)\<rparr>, None)
                   else (fsys, None)))"

text \<open>
  One \<open>Write\<close> on the file just opened (the offset is 0, or the end with
  \<open>O_APPEND\<close>), followed by \<open>Close\<close>. A write the system stops early leaves the
  bytes written so far and returns the error.
\<close>

definition Write_Close ::
  "env \<Rightarrow> filesys \<Rightarrow> string \<Rightarrow> openflags \<Rightarrow> string \<Rightarrow> filesys \<times> oserror option" where
  "Write_Close e fsys name flags data =
     (case fs_files fsys name of
        None \<Rightarrow> (fsys, Some ENOENT)
      | Some f \<Rightarrow>
          let written = (case write_err e name of None \<Rightarrow> data | Some (k, er) \<Rightarrow> take k data);
              new = (if O_APPEND flags then bytes f @ written
                     else written @ drop (length written) (bytes f))
          in (fsys\<lparr>fs_files := (fs_files fsys)(name \<mapsto> f\<lparr>bytes := new\<rparr>)\<rparr>,
              case write_err e name of None \<Rightarrow> None | Some (k, er) \<Rightarrow> Some er))"

text \<open>
  \<open>ioutil.WriteFile(filename, data, perm)\<close> is
  \<open>OpenFile(filename, O_WRONLY|O_CREATE|O_TRUNC, perm)\<close>, \<open>Write(data)\<close>, \<open>Close()\<close>.
\<close>

definition WriteFile ::
  "env \<Rightarrow> filesys \<Rightarrow> string \<Rightarrow> string \<Rightarrow> nat \<Rightarrow> filesys \<times> oserror option" where
  "WriteFile e fsys filename data perm =
     (let flags = \<lparr>O_CREATE = True, O_TRUNC = True, O_APPEND = False\<rparr> in
      case OpenFile e fsys filename flags perm of
        (fsys', Some er) \<Rightarrow> (fsys', Some er)
      | (fsys', None) \<Rightarrow> Write_Close e fsys' filename flags data)"

section \<open>Program state\<close>

text \<open>
  The global variables (\<open>conf\<close>, the two counters, the three channels) and the effects
  on the outside: the lines given to \<open>log\<close>, the text printed, the requests sent and
  the file system. A channel is the list of values sent and not yet received: a send
  appends, a receive takes the head. A send on a full channel suspends the sender
  until there is room and then completes with the same value, so the functions below
  give the state after the send. The counters are 64-bit; they count jobs and stay far
  from the bounds.
\<close>

record state =
  conf :: Conf
  downloadingCount :: int
  downloadStartCount :: int
  queue :: "Job list"
  galleryQueue :: "Gallery list"
  writeQueue :: "WriteJob list"
  logs :: "string list"
  stdout :: string
  gets :: "string list"
  requests :: "Request list"
  fs :: filesys

datatype 'a outcome = Returned 'a | Panic

text \<open>Conversion to \<open>int64\<close>: the wrap-around of \<open>tries++\<close>.\<close>

definition int64 :: "int \<Rightarrow> int" where
  "int64 x = (x + 2 ^ 63) mod 2 ^ 64 - 2 ^ 63"


section \<open>The stages of the program\<close>

subsection \<open>GalleryInfo and the goroutine that resolves the list\<close>

text \<open>
  \<open>GalleryInfo\<close> returns the error text or the gallery; the request it sends is
  recorded in \<open>gets\<close>.
\<close>

definition GalleryInfo :: "env \<Rightarrow> string \<Rightarrow> state \<Rightarrow> state \<times> (string + Gallery)" where
  "GalleryInfo e url st =
     (let pieces = Split url ''-'';
          last_piece = last pieces;
          id = hd (Split last_piece ''.'');
          target = ''https://ltn.hitomi.la/galleries/'' @ id @ ''.js'';
          st1 = st\<lparr>gets := gets st @ [target]\<rparr>
      in case ClientGet e (length (gets st)) target of
           (code, resp, Some er) \<Rightarrow> (st1, Inl er)
         | (code, resp, None) \<Rightarrow>
             if code \<noteq> 200 then (st1, Inl (Itoa code))
             else (case Unmarshal e (ReplaceAll resp ''var galleryinfo = '' []) of
                     Inl er \<Rightarrow> (st1, Inl er)
                   | Inr gallery \<Rightarrow> (st1, Inr gallery)))"

text \<open>
  The third goroutine of \<open>main\<close>:
  \<open>for _, url := range galleryUrls { gallery, err := GalleryInfo(url); if err != nil
  { log.Println(...) } else { gallery.Url = url; galleryQueue <- gallery } }\<close>.
\<close>

fun producer :: "env \<Rightarrow> string list \<Rightarrow> state \<Rightarrow> state" where
  "producer e [] st = st"
| "producer e (url # galleryUrls) st =
     (case GalleryInfo e url st of
        (st1, Inl er) \<Rightarrow>
          producer e galleryUrls
            (st1\<lparr>logs := logs st1 @ [''Read Gallery Info Fail: '' @ url @ '' Because '' @ er]\<rparr>)
      | (st1, Inr gallery) \<Rightarrow>
          producer e galleryUrls
            (st1\<lparr>galleryQueue := galleryQueue st1 @ [gallery\<lparr>Url := url\<rparr>]\<rparr>))"

subsection \<open>DownloadGallery\<close>

text \<open>The loop \<open>for _, img := range gallery.Files { queue <- Job{...} }\<close>.\<close>

fun fan_out :: "Gallery \<Rightarrow> string \<Rightarrow> Conf \<Rightarrow> Image list \<Rightarrow> state \<Rightarrow> state" where
  "fan_out gallery savePath cfg [] st = st"
| "fan_out gallery savePath cfg (img # imgs) st =
     fan_out gallery savePath cfg imgs
       (st\<lparr>queue := queue st @
          [\<lparr>Image_job = img, Gallery_job = gallery, SavePath_job = savePath, Conf_job = cfg\<rparr>]\<rparr>)"

text \<open>
  The local variables \<open>lang\<close> and \<open>title\<close>, and the two values of \<open>savePath\<close>:
  the one tried first and the one with the gallery id appended.
\<close>

definition lang_of :: "Gallery \<Rightarrow> string" where
  "lang_of gallery = (if Lang gallery = [] then ''null'' else Lang gallery)"

definition title_of :: "Gallery \<Rightarrow> string" where
  "title_of gallery = (if JpTitle gallery = [] then Title gallery else JpTitle gallery)"

definition savePath_of :: "Conf \<Rightarrow> Gallery \<Rightarrow> string" where
  "savePath_of cfg gallery =
     SavePath cfg @ lang_of gallery @ ''/'' @ ValidFileName (title_of gallery)"

definition savePath_with_id :: "Conf \<Rightarrow> Gallery \<Rightarrow> string" where
  "savePath_with_id cfg gallery =
     SavePath cfg @ lang_of gallery @ ''/'' @ ValidFileName (title_of gallery) @ '' - ''
     @ Id_gallery gallery"

text \<open>
  In the source the second \<open>MkdirAll\<close> sits inside \<open>if os.IsExist(err) { ... }\<close> and
  returns only when it fails; when it succeeds, control leaves the inner \<open>if\<close> and
  reaches the \<open>log.Print(err); return\<close> of the outer one, with the error of the first
  call.
\<close>

definition DownloadGallery :: "env \<Rightarrow> Gallery \<Rightarrow> int \<Rightarrow> int \<Rightarrow> Conf \<Rightarrow> state \<Rightarrow> state" where
  "DownloadGallery e gallery index total_n cfg st =
     (let st1 = st\<lparr>stdout := stdout st @ [CHR 0x0A],
                   logs := logs st @ [''Start Download ('' @ Itoa (index + 1) @ ''/''
                                      @ Itoa total_n @ ''): '' @ title_of gallery]\<rparr>
      in case MkdirAll e (fs st1) (savePath_of cfg gallery) ModeDir of
           (fs1, None) \<Rightarrow>
             fan_out gallery (savePath_of cfg gallery) cfg (Files gallery) (st1\<lparr>fs := fs1\<rparr>)
         | (fs1, Some er) \<Rightarrow>
             if IsExist er then
               (case MkdirAll e fs1 (savePath_with_id cfg gallery) ModeDir of
                  (fs2, Some er2) \<Rightarrow>
                    st1\<lparr>fs := fs2,
                        logs := logs st1 @ [PathError ''mkdir'' (savePath_with_id cfg gallery) er2]\<rparr>
                | (fs2, None) \<Rightarrow>
                    st1\<lparr>fs := fs2,
                        logs := logs st1 @ [PathError ''mkdir'' (savePath_of cfg gallery) er]\<rparr>)
             else st1\<lparr>fs := fs1,
                      logs := logs st1 @ [PathError ''mkdir'' (savePath_of cfg gallery) er]\<rparr>)"

subsection \<open>The two loops of main after the goroutines are started\<close>

text \<open>
  \<open>for i := 0; ; i++ { gallery := <-galleryQueue; DownloadGallery(gallery, i,
  len(galleryUrls), conf); if gallery.Url == galleryUrls[i] { break } }\<close>.
  The fourth argument is the sequence of galleries that arrive on the channel. When it
  is used up the receive never returns (\<open>Starved\<close>); an index outside
  \<open>galleryUrls\<close> is a panic.
\<close>

datatype loop_end = Broke | Starved | IndexPanic

fun main_loop ::
  "env \<Rightarrow> string list \<Rightarrow> nat \<Rightarrow> Gallery list \<Rightarrow> state \<Rightarrow> loop_end \<times> Gallery list \<times> state" where
  "main_loop e galleryUrls i [] st = (Starved, [], st)"
| "main_loop e galleryUrls i (gallery # arriving) st =
     (let st1 = DownloadGallery e gallery (int i) (int (length galleryUrls)) (conf st) st
      in if i \<ge> length galleryUrls then (IndexPanic, arriving, st1)
         else if Url gallery = galleryUrls ! i then (Broke, arriving, st1)
         else main_loop e galleryUrls (Suc i) arriving st1)"

text \<open>
  One pass of \<open>for { if downloadingCount == 0 { fmt.Println(); log.Println("Download
  Finish"); break } }\<close>: the state, and whether the loop was left.
\<close>

definition main_finish_poll :: "state \<Rightarrow> state \<times> bool" where
  "main_finish_poll st =
     (if downloadingCount st = 0
      then (st\<lparr>stdout := stdout st @ [CHR 0x0A], logs := logs st @ [''Download Finish'']\<rparr>, True)
      else (st, False))"

subsection \<open>DownloadImageHandler\<close>

definition request_for :: "Job \<Rightarrow> string \<Rightarrow> Request" where
  "request_for job url =
     \<lparr>uri = url, http_method = ''GET'',
      Referer = ''https://hitomi.la/reader/'' @ Id_gallery (Gallery_job job) @ ''.html'',
      UserAgent = ''Mozilla/5.0 (Windows NT 6.1; Win64; x64) AppleWebKit/537.36 (KHTML, like Gecko) Chrome/87.0.4280.88 Safari/537.36''\<rparr>"

text \<open>\<open>err == nil && res.Header.StatusCode() == 200 && res.Header.ContentLength() > 0\<close>.\<close>

definition succeeded :: "Response \<Rightarrow> bool" where
  "succeeded res = (res_err res = None \<and> StatusCode res = 200 \<and> ContentLength res > 0)"

definition write_job_for :: "Job \<Rightarrow> Response \<Rightarrow> WriteJob" where
  "write_job_for job res =
     (let fileName0 = Name (Image_job job);
          fileName = (if HasAvif (Image_job job) = 1 then hd (Split fileName0 ''.'') @ ''.avif''
                      else if HasWebp (Image_job job) = 1 then hd (Split fileName0 ''.'') @ ''.webp''
                      else fileName0)
      in \<lparr>Content = Body res, FileName = SavePath_job job @ ''/'' @ fileName\<rparr>)"

definition fail_message :: "bool \<Rightarrow> Job \<Rightarrow> Response \<Rightarrow> string" where
  "fail_message windows job res =
     (let toPrint0 = ''Download Image Fail: '' @ Name (Image_job job)
                     @ '' Because Max Retry Times Reached'';
          toPrint1 = (case res_err res of
                        Some er \<Rightarrow> toPrint0 @ Eol windows @ ''Last Error: '' @ er
                      | None \<Rightarrow> toPrint0)
      in if StatusCode res \<noteq> 200
         then toPrint1 @ Eol windows @ ''Last Error: Status Code '' @ Itoa (StatusCode res)
         else toPrint1)"

text \<open>
  The loop \<open>for tries := 1; ; tries++\<close>. It has no bound of its own: with
  \<open>conf.Retry\<close> at the largest \<open>int\<close> and every request failing it never ends, so
  the result is \<open>None\<close> when the loop does not return. \<open>Panic\<close> is the panic of
  \<open>ImageUrl\<close>.
\<close>

partial_function (option) tries_loop :: "env \<Rightarrow> Job \<Rightarrow> int \<Rightarrow> state \<Rightarrow> state outcome option" where
  "tries_loop e job tries st =
     (case ImageUrl (GOOS_windows e) (Image_job job) of
        None \<Rightarrow> Some Panic
      | Some url \<Rightarrow>
          if succeeded (ClientDo e (length (requests st)) (request_for job url))
          then Some (Returned
                 (st\<lparr>requests := requests st @ [request_for job url],
                     writeQueue := writeQueue st @
                       [write_job_for job (ClientDo e (length (requests st)) (request_for job url))]\<rparr>))
          else if tries > Retry (conf st)
          then Some (Returned
                 (st\<lparr>requests := requests st @ [request_for job url],
                     logs := logs st @
                       [fail_message (GOOS_windows e) job
                          (ClientDo e (length (requests st)) (request_for job url))],
                     downloadingCount := downloadingCount st - 1\<rparr>))
          else tries_loop e job (int64 (tries + 1))
                 (st\<lparr>requests := requests st @ [request_for job url]\<rparr>))"

definition DownloadImageHandler :: "env \<Rightarrow> Job \<Rightarrow> state \<Rightarrow> state outcome option" where
  "DownloadImageHandler e job st =
     tries_loop e job 1
       (st\<lparr>stdout := stdout st @ ''.'',
           downloadingCount := downloadingCount st + 1,
           downloadStartCount := downloadStartCount st + 1\<rparr>)"

subsection \<open>WriterHandler\<close>

definition WriterHandler :: "env \<Rightarrow> WriteJob \<Rightarrow> state \<Rightarrow> state" where
  "WriterHandler e job st =
     (case WriteFile e (fs st) (FileName job) (Content job) ModeAppend of
        (fs1, Some er) \<Rightarrow>
          st\<lparr>fs := fs1,
             logs := logs st @ [''Download Image Fail: '' @ FileName job @ '' Because ''
                                @ errno_text er],
             downloadingCount := downloadingCount st - 1\<rparr>
      | (fs1, None) \<Rightarrow> st\<lparr>fs := fs1, downloadingCount := downloadingCount st - 1\<rparr>)"

subsection \<open>The worker loops\<close>

text \<open>\<open>downloadingCount == 0 && downloadStartCount > 0\<close>, the \<open>break\<close> of both workers.\<close>

definition worker_break :: "state \<Rightarrow> bool" where
  "worker_break st = (downloadingCount st = 0 \<and> downloadStartCount st > 0)"

text \<open>
  \<open>DownloadImageWorker\<close> and \<open>WriteWorker\<close> run alone: each pass takes a job if there
  is one and then tests \<open>worker_break\<close>. With an empty channel and the test false the
  loop spins for ever, which is \<open>None\<close>.
\<close>

partial_function (option) DownloadImageWorker :: "env \<Rightarrow> state \<Rightarrow> state outcome option" where
  "DownloadImageWorker e st =
     (case queue st of
        [] \<Rightarrow> if worker_break st then Some (Returned st) else DownloadImageWorker e st
      | job # rest \<Rightarrow>
          (case DownloadImageHandler e job (st\<lparr>queue := rest\<rparr>) of
             None \<Rightarrow> None
           | Some Panic \<Rightarrow> Some Panic
           | Some (Returned st1) \<Rightarrow>
               if worker_break st1 then Some (Returned st1) else DownloadImageWorker e st1))"

partial_function (option) WriteWorker :: "env \<Rightarrow> state \<Rightarrow> state option" where
  "WriteWorker e st =
     (case writeQueue st of
        [] \<Rightarrow> if worker_break st then Some st else WriteWorker e st
      | job # rest \<Rightarrow>
          (let st1 = WriterHandler e job (st\<lparr>writeQueue := rest\<rparr>)
           in if worker_break st1 then Some st1 else WriteWorker e st1))"

subsection \<open>The start of main\<close>

text \<open>
  \<open>main\<close> up to the \<open>go\<close> statements, given the configuration as parsed from
  \<open>config.json\<close> and the trimmed text of \<open>list.txt\<close>. \<open>log.Fatal\<close> ends the
  program with its message. The goroutines started are listed in the order of the
  \<open>go\<close> statements.
\<close>

datatype goroutine = G_DownloadImageWorker | G_WriteWorker | G_producer

function spawn_workers :: "int \<Rightarrow> int \<Rightarrow> goroutine list" where
  "spawn_workers i n = (if i < n then G_DownloadImageWorker # spawn_workers (i + 1) n else [])"
  by pat_completeness auto
termination
  by (relation "measure (\<lambda>(i, n). nat (n - i))") auto

definition set_ThreadNum :: "env \<Rightarrow> Conf \<Rightarrow> Conf" where
  "set_ThreadNum e cfg =
     (if ThreadNum cfg < 1 \<or> ThreadNum cfg > NumCPU e
      then cfg\<lparr>ThreadNum := NumCPU e\<rparr> else cfg)"

text \<open>The pool: \<open>for i := 0; i < conf.ThreadNum; i++ { go func() { DownloadImageWorker() }() }\<close>.\<close>

definition download_pool :: "env \<Rightarrow> Conf \<Rightarrow> goroutine list" where
  "download_pool e cfg = spawn_workers 0 (ThreadNum (set_ThreadNum e cfg))"

definition main_start ::
  "env \<Rightarrow> Conf \<Rightarrow> string \<Rightarrow> filesys \<Rightarrow> string + (string list \<times> goroutine list \<times> state)" where
  "main_start e cfg listStr fsys =
     (let cfg1 = set_ThreadNum e cfg in
      if listStr = [] then Inl ''Empty List''
      else
        let galleryUrls = Unique (Split listStr (Eol (GOOS_windows e)))
        in Inr (galleryUrls,
                download_pool e cfg @ [G_WriteWorker, G_producer],
                \<lparr>conf = cfg1, downloadingCount = 0, downloadStartCount = 0,
                 queue = [], galleryQueue = [], writeQueue = [], logs = [], stdout = [],
                 gets = [], requests = [], fs = fsys\<rparr>))"

declare spawn_workers.simps [simp del]


section \<open>Schedules and example inputs\<close>

text \<open>
  The goroutines run concurrently. The following function is the schedule in which the
  resolving goroutine runs to its end and \<open>main\<close> then runs its two loops, before any
  worker has taken a job: the way the first loop of \<open>main\<close> ended, the state, and
  whether \<open>main\<close> left its second loop (reported completion). After \<open>Starved\<close> or
  a panic \<open>main\<close> does not reach the second loop.
\<close>

definition run_main :: "env \<Rightarrow> Conf \<Rightarrow> string \<Rightarrow> filesys \<Rightarrow> (loop_end \<times> state \<times> bool) option" where
  "run_main e cfg listStr fsys =
     (case main_start e cfg listStr fsys of
        Inl fatal \<Rightarrow> None
      | Inr (galleryUrls, goroutines, st0) \<Rightarrow>
          let st1 = producer e galleryUrls st0 in
          (case main_loop e galleryUrls 0 (galleryQueue st1) (st1\<lparr>galleryQueue := []\<rparr>) of
             (Broke, rest, st2) \<Rightarrow>
               Some (Broke, main_finish_poll (st2\<lparr>galleryQueue := rest\<rparr>))
           | (ending, rest, st2) \<Rightarrow> Some (ending, st2\<lparr>galleryQueue := rest\<rparr>, False)))"

text \<open>
  The schedule in which, after the resolving goroutine and the first loop of \<open>main\<close>,
  one download worker runs until it leaves its loop, then the write worker, then the
  second loop of \<open>main\<close>. It is \<open>None\<close> when a goroutine would have to wait for
  another one.
\<close>

definition run_drained :: "env \<Rightarrow> Conf \<Rightarrow> string \<Rightarrow> filesys \<Rightarrow> (state \<times> bool) option" where
  "run_drained e cfg listStr fsys =
     (case main_start e cfg listStr fsys of
        Inl fatal \<Rightarrow> None
      | Inr (galleryUrls, goroutines, st0) \<Rightarrow>
          let st1 = producer e galleryUrls st0 in
          (case main_loop e galleryUrls 0 (galleryQueue st1) (st1\<lparr>galleryQueue := []\<rparr>) of
             (Broke, rest, st2) \<Rightarrow>
               (case DownloadImageWorker e (st2\<lparr>galleryQueue := rest\<rparr>) of
                  Some (Returned st3) \<Rightarrow>
                    (case WriteWorker e st3 of
                       Some st4 \<Rightarrow> Some (main_finish_poll st4)
                     | None \<Rightarrow> None)
                | _ \<Rightarrow> None)
           | _ \<Rightarrow> None))"

text \<open>Example inputs for the witnesses and evaluations below.\<close>

definition example_env ::
  "(string \<Rightarrow> int \<times> string \<times> string option) \<Rightarrow> (nat \<Rightarrow> Response) \<Rightarrow>
   (string \<Rightarrow> string + Gallery) \<Rightarrow> (string \<Rightarrow> oserror option) \<Rightarrow> env" where
  "example_env get_answer do_answer unmarshal mkdir_answer =
     \<lparr>GOOS_windows = False, NumCPU = 4,
      ClientGet = (\<lambda>k. get_answer), ClientDo = (\<lambda>k req. do_answer k),
      Unmarshal = unmarshal, mkdir_err = mkdir_answer,
      open_err = (\<lambda>p. None), write_err = (\<lambda>p. None)\<rparr>"

definition example_conf :: Conf where
  "example_conf = \<lparr>SavePath = ''/dl/'', Socks = [], Retry = 2, ThreadNum = 2\<rparr>"

definition empty_fs :: filesys where
  "empty_fs = \<lparr>fs_dirs = (\<lambda>p. False), fs_files = Map.empty\<rparr>"

definition ok_response :: Response where
  "ok_response = \<lparr>res_err = None, StatusCode = 200, ContentLength = 3, Body = ''PNG''\<rparr>"

definition bad_response :: Response where
  "bad_response = \<lparr>res_err = None, StatusCode = 503, ContentLength = 0, Body = []\<rparr>"

definition example_image :: Image where
  "example_image = \<lparr>Name = ''1.jpg'', Hash = ''abc00f'', HasWebp = 1, HasAvif = 0\<rparr>"

definition example_gallery :: "string \<Rightarrow> Image list \<Rightarrow> Gallery" where
  "example_gallery ident imgs =
     \<lparr>Id_gallery = ident, Title = ''T'', JpTitle = [], Lang = ''en'', Files = imgs, Url = []\<rparr>"

text \<open>
  A metadata server that knows the galleries 1 (no image), 2 and 3 (one image each, same
  title) and answers 404 for every other id, and the matching JSON decoder.
\<close>

definition example_get :: "string \<Rightarrow> int \<times> string \<times> string option" where
  "example_get target =
     (if target = ''https://ltn.hitomi.la/galleries/1.js'' then (200, ''var galleryinfo = g1'', None)
      else if target = ''https://ltn.hitomi.la/galleries/2.js'' then (200, ''var galleryinfo = g2'', None)
      else if target = ''https://ltn.hitomi.la/galleries/3.js'' then (200, ''var galleryinfo = g3'', None)
      else (404, [], None))"

definition example_unmarshal :: "string \<Rightarrow> string + Gallery" where
  "example_unmarshal s =
     (if s = ''g1'' then Inr (example_gallery ''1'' [])
      else if s = ''g2'' then Inr (example_gallery ''2'' [example_image])
      else if s = ''g3'' then Inr (example_gallery ''3'' [example_image])
      else Inl ''unexpected end of JSON input'')"


text \<open>An environment in which every request is answered and nothing is refused.\<close>

definition env_ok :: env where
  "env_ok = example_env example_get (\<lambda>k. ok_response) example_unmarshal (\<lambda>p. None)"

text \<open>A state in which the destination file of a write job already has contents.\<close>

definition state_with_old_file :: state where
  "state_with_old_file =
     \<lparr>conf = example_conf, downloadingCount = 1, downloadStartCount = 1,
      queue = [], galleryQueue = [], writeQueue = [], logs = [], stdout = [],
      gets = [], requests = [],
      fs = \<lparr>fs_dirs = (\<lambda>p. p = ''/dl/en/T''),
            fs_files = [''/dl/en/T/1.webp'' \<mapsto> \<lparr>perm_bits = 0, bytes = ''OLD''\<rparr>]\<rparr>\<rparr>"

definition example_write_job :: WriteJob where
  "example_write_job = \<lparr>Content = ''PNG'', FileName = ''/dl/en/T/1.webp''\<rparr>"


section \<open>The retry rule as the specification words it\<close>

text \<open>
  A job is tried until an attempt succeeds or the attempts are used up. With retry
  limit \<open>r\<close> the loop \<open>for tries := 1; ; tries++\<close> makes at most \<open>r + 1\<close> attempts,
  and always at least one. \<open>first_success ok k n\<close> is the index of the first successful
  attempt among the \<open>n\<close> attempts numbered from \<open>k\<close>, if there is one.
\<close>

definition attempt_budget :: "int \<Rightarrow> nat" where
  "attempt_budget r = nat (max 1 (r + 1))"

fun first_success :: "(nat \<Rightarrow> bool) \<Rightarrow> nat \<Rightarrow> nat \<Rightarrow> nat option" where
  "first_success ok k 0 = None"
| "first_success ok k (Suc n) = (if ok k then Some k else first_success ok (Suc k) n)"

text \<open>More example inputs.\<close>

definition env_down :: env where
  "env_down = example_env example_get (\<lambda>k. bad_response) example_unmarshal (\<lambda>p. None)"

definition env_third :: env where
  "env_third = example_env example_get (\<lambda>k. if k < 2 then bad_response else ok_response)
                 example_unmarshal (\<lambda>p. None)"

definition env_exists :: env where
  "env_exists = example_env example_get (\<lambda>k. ok_response) example_unmarshal
                  (\<lambda>p. if p = ''/dl/en/T'' then Some EEXIST else None)"

definition idle_state :: state where
  "idle_state =
     \<lparr>conf = example_conf, downloadingCount = 0, downloadStartCount = 0,
      queue = [], galleryQueue = [], writeQueue = [], logs = [], stdout = [],
      gets = [], requests = [], fs = empty_fs\<rparr>"

definition example_job :: Job where
  "example_job =
     \<lparr>Image_job = example_image, Gallery_job = example_gallery ''2'' [example_image],
      SavePath_job = ''/dl/en/T'', Conf_job = example_conf\<rparr>"

text \<open>What is read off the end of a run: the write jobs left and the images resolved.\<close>

definition write_jobs_at_end :: "(state \<times> bool) option \<Rightarrow> nat option" where
  "write_jobs_at_end r = (case r of None \<Rightarrow> None | Some (st, fin) \<Rightarrow> Some (length (writeQueue st)))"

definition files_at_end :: "(state \<times> bool) option \<Rightarrow> string \<Rightarrow> fileobj option" where
  "files_at_end r p = (case r of None \<Rightarrow> None | Some (st, fin) \<Rightarrow> fs_files (fs st) p)"

definition resolved_image_count :: "env \<Rightarrow> Conf \<Rightarrow> string \<Rightarrow> filesys \<Rightarrow> nat" where
  "resolved_image_count e cfg listStr fsys =
     (case main_start e cfg listStr fsys of
        Inl fatal \<Rightarrow> 0
      | Inr (galleryUrls, goroutines, st0) \<Rightarrow>
          sum_list (map (\<lambda>g. length (Files g)) (galleryQueue (producer e galleryUrls st0))))"


section \<open>The two ways a download job ends\<close>

text \<open>
  \<open>started\<close> is the state once the handler has printed its dot and counted the job.
  \<open>delivered\<close> is the end of a job whose attempt number \<open>k\<close> (counted over all
  requests) succeeded: the requests made, and one write job. \<open>abandoned\<close> is the end
  of a job that failed \<open>n\<close> times: the requests, one log line, and the in-flight
  counter taken back.
\<close>

definition delivered :: "env \<Rightarrow> Job \<Rightarrow> string \<Rightarrow> nat \<Rightarrow> state \<Rightarrow> state" where
  "delivered e job url k st =
     st\<lparr>requests := requests st @ replicate (Suc (k - length (requests st))) (request_for job url),
        writeQueue := writeQueue st @ [write_job_for job (ClientDo e k (request_for job url))]\<rparr>"

definition abandoned :: "env \<Rightarrow> Job \<Rightarrow> string \<Rightarrow> nat \<Rightarrow> state \<Rightarrow> state" where
  "abandoned e job url n st =
     st\<lparr>requests := requests st @ replicate n (request_for job url),
        logs := logs st @ [fail_message (GOOS_windows e) job
                  (ClientDo e (length (requests st) + n - 1) (request_for job url))],
        downloadingCount := downloadingCount st - 1\<rparr>"

definition started :: "state \<Rightarrow> state" where
  "started st = st\<lparr>stdout := stdout st @ ''.'',
                   downloadingCount := downloadingCount st + 1,
                   downloadStartCount := downloadStartCount st + 1\<rparr>"


(*PROOFS*)

section \<open>Unique: first-seen order, no duplicates, idempotence\<close>

lemma rev_remdups_rev_Cons:
  "rev (remdups (rev (x # ys))) = x # rev (remdups (rev (filter (\<lambda>y. y \<noteq> x) ys)))"
proof (induction ys rule: rev_induct)
  case Nil
  then show ?case by simp
next
  case (snoc y ys)
  then show ?case by (auto simp: rev_filter)
qed

lemma filter_keys_upd:
  "filter (\<lambda>y. (keys(x \<mapsto> ())) y = None) xs
     = filter (\<lambda>y. y \<noteq> x) (filter (\<lambda>y. keys y = None) xs)"
  by (induction xs) auto

lemma Unique_loop_eq:
  "Unique_loop keys list xs
     = list @ rev (remdups (rev (filter (\<lambda>x. keys x = None) xs)))"
proof (induction xs arbitrary: keys list)
  case Nil
  then show ?case by simp
next
  case (Cons x xs)
  show ?case
  proof (cases "keys x = None")
    case True
    have "Unique_loop keys list (x # xs)
            = Unique_loop (keys(x \<mapsto> ())) (list @ [x]) xs"
      using True by simp
    also have "\<dots> = (list @ [x]) @ rev (remdups (rev
                 (filter (\<lambda>y. y \<noteq> x) (filter (\<lambda>y. keys y = None) xs))))"
      by (simp only: Cons.IH filter_keys_upd)
    also have "\<dots> = list @ rev (remdups (rev (x # filter (\<lambda>y. keys y = None) xs)))"
      by (simp only: rev_remdups_rev_Cons append_assoc append_Cons append_Nil)
    finally show ?thesis using True by simp
  next
    case False
    then show ?thesis by (simp add: Cons.IH)
  qed
qed

lemma Unique_eq: "Unique xs = rev (remdups (rev xs))"
  by (simp add: Unique_def Unique_loop_eq)

text \<open>
  C9. \<open>Unique\<close> (the spec's Dedup) is idempotent, and it returns the elements in
  first-seen order with duplicates removed: the result has no duplicates and the same
  elements as the input, a string appended to the input is appended to the result
  exactly when it has not been seen before, and on \<open>["a","b","a"]\<close> the result is
  \<open>["a","b"]\<close>.
\<close>

theorem Unique_idempotent_first_seen:
  "Unique (Unique x) = Unique x
   \<and> Unique [''a'', ''b'', ''a''] = [''a'', ''b'']
   \<and> distinct (Unique x)
   \<and> set (Unique x) = set x
   \<and> Unique [] = []
   \<and> Unique (x @ [s]) = (if s \<in> set x then Unique x else Unique x @ [s])"
  by (simp add: Unique_eq distinct_remdups_id)

section \<open>ImageUrl: definedness\<close>

text \<open>
  C10. \<open>ImageUrl\<close> slices the hash at \<open>len - 1\<close> and at \<open>len - 3\<close>
  unconditionally: it returns a URL exactly when the hash has at least 3 bytes, and
  panics (slice bounds out of range) on every shorter hash.
\<close>

theorem ImageUrl_defined_iff:
  "(ImageUrl windows img = None) = (length (Hash img) < 3)
   \<and> (\<exists>url. ImageUrl windows img = Some url) = (3 \<le> length (Hash img))"
  by (auto simp: ImageUrl_def Let_def slice_def split: option.splits)


section \<open>ImageUrl: the shard algorithm\<close>

lemma hex_digit:
  assumes "is_hex c"
  shows "digit_of c = Some (hexval c) \<and> hexval c < 16 \<and> c \<noteq> CHR ''+'' \<and> c \<noteq> CHR ''-''"
proof -
  from assms have "c = CHR ''0'' \<or> c = CHR ''1'' \<or> c = CHR ''2'' \<or> c = CHR ''3'' \<or> c = CHR ''4''
      \<or> c = CHR ''5'' \<or> c = CHR ''6'' \<or> c = CHR ''7'' \<or> c = CHR ''8'' \<or> c = CHR ''9''
      \<or> c = CHR ''a'' \<or> c = CHR ''b'' \<or> c = CHR ''c'' \<or> c = CHR ''d'' \<or> c = CHR ''e'' \<or> c = CHR ''f''
      \<or> c = CHR ''A'' \<or> c = CHR ''B'' \<or> c = CHR ''C'' \<or> c = CHR ''D'' \<or> c = CHR ''E'' \<or> c = CHR ''F''"
    by (simp add: is_hex_def)
  then show ?thesis
    by (elim disjE) (simp_all add: digit_of_def hexval_def lower_def)
qed


lemma ParseUint_hex2:
  assumes "digit_of c1 = Some d1" "d1 < 16" "digit_of c2 = Some d2" "d2 < 16"
  shows "ParseUint [c1, c2] 16 = Inr (d1 * 16 + d2)"
  using assms by (simp add: ParseUint_def maxUint64_def)

lemma ParseInt_hex2:
  assumes "is_hex c1" "is_hex c2"
  shows "ParseInt [c1, c2] 16 = Inr (parse16 [c1, c2])"
proof -
  from hex_digit[OF assms(1)] have d1: "digit_of c1 = Some (hexval c1)" "hexval c1 < 16" "c1 \<noteq> CHR ''+''" "c1 \<noteq> CHR ''-''" by auto
  from hex_digit[OF assms(2)] have d2: "digit_of c2 = Some (hexval c2)" "hexval c2 < 16" by auto
  have u: "ParseUint [c1, c2] 16 = Inr (hexval c1 * 16 + hexval c2)"
    by (rule ParseUint_hex2[OF d1(1,2) d2])
  have b: "hexval c1 * 16 + hexval c2 < 2 ^ 63" using d1(2) d2(2) by simp
  have "ParseInt [c1, c2] 16 = Inr (int (hexval c1 * 16 + hexval c2))"
    using u b d1(3,4) by (simp add: ParseInt_def)
  also have "int (hexval c1 * 16 + hexval c2) = parse16 [c1, c2]"
    by (simp add: parse16_def)
  finally show ?thesis .
qed

lemma parse16_nonneg: "0 \<le> parse16 s"
proof -
  have "0 \<le> n \<Longrightarrow> 0 \<le> foldl (\<lambda>n c. 16 * n + int (hexval c)) n s" for n
    by (induction s arbitrary: n) auto
  then show ?thesis by (simp add: parse16_def)
qed

lemma rune_letter:
  "string_of_rune (97 + go_rem (spec_clamp g) (spec_shardCount g)) = [spec_letter g]"
proof -
  have c: "1 \<le> spec_clamp g" by (simp add: spec_clamp_def)
  have s: "spec_shardCount g = 2 \<or> spec_shardCount g = 3" by (simp add: spec_shardCount_def)
  have r: "go_rem (spec_clamp g) (spec_shardCount g) = spec_clamp g mod spec_shardCount g"
    using c s by (auto simp: go_rem_def)
  have m: "0 \<le> spec_clamp g mod spec_shardCount g" "spec_clamp g mod spec_shardCount g < 3"
    using s by auto
  show ?thesis using m by (simp add: r string_of_rune_def spec_letter_def)
qed


lemma slice_h1: "1 \<le> length s \<Longrightarrow> slice s (int (length s) - 1) (int (length s)) = Some (drop (length s - 1) s)"
  by (auto simp: slice_def nat_diff_distrib')

lemma slice_h2: "3 \<le> length s \<Longrightarrow> slice s (int (length s) - 3) (int (length s) - 1) = Some (take 2 (drop (length s - 3) s))"
  by (simp add: slice_def nat_diff_distrib')

lemma two_chars: "length xs = 2 \<Longrightarrow> \<exists>a b. xs = [a, b]"
  by (cases xs; cases "tl xs") auto

text \<open>
  C2. For an image whose hash has at least 3 bytes and whose \<open>h2\<close> (the two bytes
  before the last) consists of hex digits, \<open>ImageUrl\<close> builds the URL of the shard
  algorithm: \<open>g\<close> is \<open>h2\<close> read in base 16, the shard count is 2 below 0x30 and 3
  otherwise, \<open>g\<close> below 0x09 is clamped to 1, the subdomain letter is
  \<open>'a' + (g mod shardCount)\<close>, followed by \<open>a\<close> for avif/webp and \<open>b\<close> for the
  original; for \<open>h2 = "00"\<close> the letter is \<open>b\<close>.
\<close>

theorem ImageUrl_shard_algorithm:
  assumes len: "3 \<le> length (Hash img)"
      and h1: "h1 = drop (length (Hash img) - 1) (Hash img)"
      and h2: "h2 = take 2 (drop (length (Hash img) - 3) (Hash img))"
      and hex: "list_all is_hex h2"
      and g: "g = parse16 h2"
  shows "ImageUrl windows img =
           Some (''https://'' @ [spec_letter g, spec_suffix img] @ ''.hitomi.la/''
                 @ spec_directory img @ ''/'' @ h1 @ ''/'' @ h2 @ ''/'' @ Hash img
                 @ spec_extension windows img)
         \<and> (h2 = ''00'' \<longrightarrow> spec_letter g = CHR ''b'')"
proof -
  have "length h2 = 2" using len h2 by simp
  then obtain c1 c2 where c: "h2 = [c1, c2]" using two_chars by blast
  with hex have "is_hex c1" "is_hex c2" by simp_all
  then have p: "ParseInt h2 16 = Inr g" using ParseInt_hex2 c g by simp
  have s1: "slice (Hash img) (int (length (Hash img)) - 1) (int (length (Hash img))) = Some h1"
    using len h1 by (simp add: slice_h1)
  have s2: "slice (Hash img) (int (length (Hash img)) - 3) (int (length (Hash img)) - 1) = Some h2"
    using len h2 by (simp add: slice_h2)
  have r: "string_of_rune (97 + go_rem (if g < 9 then 1 else g) (if g < 48 then 2 else 3)) = [spec_letter g]"
    using rune_letter[of g] by (simp add: spec_clamp_def spec_shardCount_def)
  have url: "ImageUrl windows img =
           Some (''https://'' @ [spec_letter g, spec_suffix img] @ ''.hitomi.la/''
                 @ spec_directory img @ ''/'' @ h1 @ ''/'' @ h2 @ ''/'' @ Hash img
                 @ spec_extension windows img)"
    by (simp add: ImageUrl_def Let_def s1 s2 p r spec_suffix_def spec_directory_def
        spec_extension_def)
  have z: "h2 = ''00'' \<longrightarrow> spec_letter g = CHR ''b''"
    by (simp add: g parse16_def hexval_def spec_letter_def spec_clamp_def spec_shardCount_def char_of_eq_iff)
  from url z show ?thesis by blast
qed

theorem ImageUrl_shard_algorithm_witness:
  "ImageUrl False \<lparr>Name = ''1.jpg'', Hash = ''abc00f'', HasWebp = 1, HasAvif = 0\<rparr>
     = Some ''https://ba.hitomi.la/webp/f/00/abc00f.webp''"
proof -
  let ?img = "\<lparr>Name = ''1.jpg'', Hash = ''abc00f'', HasWebp = 1, HasAvif = 0\<rparr>"
  have a: "3 \<le> length (Hash ?img)" by simp
  have b: "''f'' = drop (length (Hash ?img) - 1) (Hash ?img)" by simp
  have c: "''00'' = take 2 (drop (length (Hash ?img) - 3) (Hash ?img))" by simp
  have d: "list_all is_hex ''00''" by (simp add: is_hex_def)
  have e: "(0::int) = parse16 ''00''" by (simp add: parse16_def hexval_def)
  from ImageUrl_shard_algorithm[OF a b c d e, of False]
  show ?thesis
    by (simp add: spec_suffix_def spec_directory_def spec_extension_def)
qed







section \<open>The size of the worker pool\<close>

lemma spawn_workers_length: "length (spawn_workers i n) = nat (n - i)"
proof (induction i n rule: spawn_workers.induct)
  case (1 i n)
  show ?case
  proof (cases "i < n")
    case True
    then have "length (spawn_workers i n) = Suc (length (spawn_workers (i + 1) n))"
      by (subst spawn_workers.simps) simp
    also have "\<dots> = Suc (nat (n - (i + 1)))" using 1 True by simp
    also have "\<dots> = nat (n - i)" using True by simp
    finally show ?thesis .
  next
    case False
    then show ?thesis by (subst spawn_workers.simps) simp
  qed
qed

text \<open>
  C8, as the code has it. The pool has \<open>min(configured, NumCPU)\<close> download workers
  when the configured count is at least 1; a configured count below 1 is replaced by
  \<open>NumCPU\<close> (the guard \<open>conf.ThreadNum < 1\<close>), where the minimum would be the
  configured count itself.
\<close>

theorem download_pool_size:
  assumes "1 \<le> NumCPU e"
  shows "int (length (download_pool e cfg))
           = (if 1 \<le> ThreadNum cfg then min (ThreadNum cfg) (NumCPU e) else NumCPU e)"
  using assms by (simp add: download_pool_def set_ThreadNum_def spawn_workers_length)

theorem download_pool_size_witness:
  "1 \<le> NumCPU env_ok \<and> int (length (download_pool env_ok example_conf)) = 2"
proof -
  have h: "1 \<le> NumCPU env_ok"
    by (simp add: env_ok_def example_env_def)
  from download_pool_size[OF h, of example_conf] h
  show ?thesis by (simp add: env_ok_def example_env_def example_conf_def)
qed

text \<open>
  With 4 processors and a configured count of 0 the pool has 4 workers, and the minimum
  of the two numbers is 0.
\<close>

theorem download_pool_not_min:
  "int (length (download_pool env_ok (example_conf\<lparr>ThreadNum := 0\<rparr>))) = 4
   \<and> min (ThreadNum (example_conf\<lparr>ThreadNum := 0\<rparr>)) (NumCPU env_ok) = 0"
  by (simp add: download_pool_def set_ThreadNum_def spawn_workers_length env_ok_def
      example_env_def example_conf_def)

section \<open>The write worker overwrites\<close>

lemma OpenFile_trunc:
  assumes "\<not> fs_dirs fsys name" "open_err e name = None"
  shows "\<exists>f. OpenFile e fsys name \<lparr>O_CREATE = True, O_TRUNC = True, O_APPEND = False\<rparr> perm
           = (fsys\<lparr>fs_files := (fs_files fsys)(name \<mapsto> f)\<rparr>, None) \<and> bytes f = []"
  using assms by (auto simp: OpenFile_def split: option.splits)

lemma WriteFile_overwrites:
  assumes "\<not> fs_dirs fsys name" "open_err e name = None" "write_err e name = None"
  shows "\<exists>f. WriteFile e fsys name data perm
           = (fsys\<lparr>fs_files := (fs_files fsys)(name \<mapsto> f)\<rparr>, None) \<and> bytes f = data"
proof -
  from OpenFile_trunc[OF assms(1,2), of perm] obtain f where
    o: "OpenFile e fsys name \<lparr>O_CREATE = True, O_TRUNC = True, O_APPEND = False\<rparr> perm
           = (fsys\<lparr>fs_files := (fs_files fsys)(name \<mapsto> f)\<rparr>, None)" and b: "bytes f = []"
    by blast
  show ?thesis
    using assms(3) b
    by (auto simp: WriteFile_def o Write_Close_def intro!: exI[of _ "f\<lparr>bytes := data\<rparr>"])
qed

lemma WriterHandler_count:
  "downloadingCount (WriterHandler e job st) = downloadingCount st - 1"
  by (simp add: WriterHandler_def split: prod.splits option.splits)

text \<open>
  C7. \<open>WriterHandler\<close> calls \<open>ioutil.WriteFile\<close>, which opens with
  \<open>O_CREATE|O_TRUNC\<close>; the \<open>os.ModeAppend\<close> it passes is the permission argument,
  not an open flag. When the system lets the file be opened and written, the file holds
  exactly the payload afterwards, whatever it held before, and nothing is logged; in
  every case the in-flight counter is decremented.
\<close>

theorem WriterHandler_overwrites:
  "downloadingCount (WriterHandler e job st) = downloadingCount st - 1
   \<and> (\<not> fs_dirs (fs st) (FileName job) \<and> open_err e (FileName job) = None
        \<and> write_err e (FileName job) = None
      \<longrightarrow> map_option bytes (fs_files (fs (WriterHandler e job st)) (FileName job))
            = Some (Content job)
          \<and> logs (WriterHandler e job st) = logs st)"
proof -
  have "map_option bytes (fs_files (fs (WriterHandler e job st)) (FileName job))
            = Some (Content job) \<and> logs (WriterHandler e job st) = logs st"
    if a: "\<not> fs_dirs (fs st) (FileName job)" "open_err e (FileName job) = None"
          "write_err e (FileName job) = None"
  proof -
    from WriteFile_overwrites[OF a, of "Content job" ModeAppend] obtain f where
      w: "WriteFile e (fs st) (FileName job) (Content job) ModeAppend
           = ((fs st)\<lparr>fs_files := (fs_files (fs st))(FileName job \<mapsto> f)\<rparr>, None)"
      and b: "bytes f = Content job" by blast
    show ?thesis by (simp add: WriterHandler_def w b)
  qed
  then show ?thesis using WriterHandler_count by blast
qed

theorem WriterHandler_overwrites_witness:
  "map_option bytes (fs_files (fs state_with_old_file) ''/dl/en/T/1.webp'') = Some ''OLD''
   \<and> map_option bytes
       (fs_files (fs (WriterHandler env_ok example_write_job state_with_old_file))
          ''/dl/en/T/1.webp'') = Some ''PNG''
   \<and> downloadingCount (WriterHandler env_ok example_write_job state_with_old_file) = 0"
  using WriterHandler_overwrites[of env_ok example_write_job state_with_old_file]
  by (simp add: env_ok_def example_env_def state_with_old_file_def example_write_job_def)



section \<open>DownloadImageHandler: bounded retry\<close>

lemma int64_id: "- (2 ^ 63) \<le> x \<Longrightarrow> x < 2 ^ 63 \<Longrightarrow> int64 x = x"
  by (simp add: int64_def)

lemma first_success_ge: "first_success ok k n = Some j \<Longrightarrow> k \<le> j"
  by (induction n arbitrary: k) (auto split: if_splits dest: Suc_leD)

lemma tries_loop_success:
  assumes "ImageUrl (GOOS_windows e) (Image_job job) = Some url"
      and "succeeded (ClientDo e (length (requests st)) (request_for job url))"
  shows "tries_loop e job tries st = Some (Returned (delivered e job url (length (requests st)) st))"
  using assms by (subst tries_loop.simps) (simp add: delivered_def)

lemma tries_loop_give_up:
  assumes "ImageUrl (GOOS_windows e) (Image_job job) = Some url"
      and "\<not> succeeded (ClientDo e (length (requests st)) (request_for job url))"
      and "tries > Retry (conf st)"
  shows "tries_loop e job tries st = Some (Returned (abandoned e job url 1 st))"
  using assms by (subst tries_loop.simps) (simp add: abandoned_def)

lemma tries_loop_again:
  assumes "ImageUrl (GOOS_windows e) (Image_job job) = Some url"
      and "\<not> succeeded (ClientDo e (length (requests st)) (request_for job url))"
      and "\<not> tries > Retry (conf st)"
  shows "tries_loop e job tries st
           = tries_loop e job (int64 (tries + 1)) (st\<lparr>requests := requests st @ [request_for job url]\<rparr>)"
  using assms by (subst tries_loop.simps) simp


lemma delivered_shift:
  assumes "Suc (length (requests st)) \<le> k"
  shows "delivered e job url k (st\<lparr>requests := requests st @ [request_for job url]\<rparr>)
           = delivered e job url k st"
proof -
  have "Suc (k - length (requests st)) = Suc (Suc (k - Suc (length (requests st))))"
    using assms by simp
  then show ?thesis
    by (simp add: delivered_def replicate_app_Cons_same)
qed

lemma abandoned_shift:
  "abandoned e job url (Suc m) (st\<lparr>requests := requests st @ [request_for job url]\<rparr>)
     = abandoned e job url (Suc (Suc m)) st"
  by (simp add: abandoned_def replicate_app_Cons_same)

lemma tries_loop_result:
  assumes u: "ImageUrl (GOOS_windows e) (Image_job job) = Some url"
      and r: "Retry (conf st) < 2 ^ 63 - 1"
      and t: "- (2 ^ 63) \<le> tries"
      and b: "Suc m = nat (max 1 (Retry (conf st) - tries + 2))"
  shows "tries_loop e job tries st =
           Some (Returned
             (case first_success (\<lambda>k. succeeded (ClientDo e k (request_for job url)))
                     (length (requests st)) (Suc m) of
                Some k \<Rightarrow> delivered e job url k st
              | None \<Rightarrow> abandoned e job url (Suc m) st))"
  using r t b
proof (induction m arbitrary: tries st)
  case 0
  then have g: "tries > Retry (conf st)" by simp
  show ?case
  proof (cases "succeeded (ClientDo e (length (requests st)) (request_for job url))")
    case True
    then show ?thesis using tries_loop_success[OF u True] by simp
  next
    case False
    then show ?thesis using tries_loop_give_up[OF u False g] by simp
  qed
next
  case (Suc m)
  then have g: "\<not> tries > Retry (conf st)" by simp
  let ?st2 = "st\<lparr>requests := requests st @ [request_for job url]\<rparr>"
  show ?case
  proof (cases "succeeded (ClientDo e (length (requests st)) (request_for job url))")
    case True
    then show ?thesis using tries_loop_success[OF u True] by simp
  next
    case False
    have i: "int64 (tries + 1) = tries + 1"
      using g Suc.prems by (intro int64_id) simp_all
    have "tries_loop e job tries st = tries_loop e job (tries + 1) ?st2"
      using tries_loop_again[OF u False g] i by simp
    also have "\<dots> = Some (Returned
             (case first_success (\<lambda>k. succeeded (ClientDo e k (request_for job url)))
                     (length (requests ?st2)) (Suc m) of
                Some k \<Rightarrow> delivered e job url k ?st2
              | None \<Rightarrow> abandoned e job url (Suc m) ?st2))"
      using Suc.prems g by (intro Suc.IH) simp_all
    also have "\<dots> = Some (Returned
             (case first_success (\<lambda>k. succeeded (ClientDo e k (request_for job url)))
                     (length (requests st)) (Suc (Suc m)) of
                Some k \<Rightarrow> delivered e job url k st
              | None \<Rightarrow> abandoned e job url (Suc (Suc m)) st))"
    proof (cases "first_success (\<lambda>k. succeeded (ClientDo e k (request_for job url)))
                     (Suc (length (requests st))) (Suc m)")
      case None
      then show ?thesis using False by (simp add: abandoned_shift)
    next
      case (Some k)
      then have "Suc (length (requests st)) \<le> k" by (rule first_success_ge)
      then show ?thesis using False Some by (simp add: delivered_shift)
    qed
    finally show ?thesis .
  qed
qed


lemma DownloadImageHandler_result:
  assumes u: "ImageUrl (GOOS_windows e) (Image_job job) = Some url"
      and r: "Retry (conf st) < 2 ^ 63 - 1"
  shows "DownloadImageHandler e job st =
           Some (Returned
             (case first_success (\<lambda>k. succeeded (ClientDo e k (request_for job url)))
                     (length (requests st)) (attempt_budget (Retry (conf st))) of
                Some k \<Rightarrow> delivered e job url k (started st)
              | None \<Rightarrow> abandoned e job url (attempt_budget (Retry (conf st))) (started st)))"
proof -
  obtain m where m: "attempt_budget (Retry (conf st)) = Suc m"
    by (cases "attempt_budget (Retry (conf st))") (simp_all add: attempt_budget_def)
  have b: "Suc m = nat (max 1 (Retry (conf (started st)) - 1 + 2))"
    using m by (simp add: attempt_budget_def started_def)
  have r': "Retry (conf (started st)) < 2 ^ 63 - 1" using r by (simp add: started_def)
  have "tries_loop e job 1 (started st) =
           Some (Returned
             (case first_success (\<lambda>k. succeeded (ClientDo e k (request_for job url)))
                     (length (requests (started st))) (Suc m) of
                Some k \<Rightarrow> delivered e job url k (started st)
              | None \<Rightarrow> abandoned e job url (Suc m) (started st)))"
    by (rule tries_loop_result[OF u r' _ b]) simp
  moreover have "DownloadImageHandler e job st = tries_loop e job 1 (started st)"
    by (simp add: DownloadImageHandler_def started_def)
  moreover have "length (requests (started st)) = length (requests st)"
    by (simp add: started_def)
  ultimately show ?thesis
    by (simp only: m)
qed

lemma example_image_url:
  "ImageUrl False example_image = Some ''https://ba.hitomi.la/webp/f/00/abc00f.webp''"
  by (simp add: ImageUrl_def example_image_def slice_def ParseInt_def ParseUint_def digit_of_def
      lower_def maxUint64_def go_rem_def string_of_rune_def char_of_eq_iff)

text \<open>
  C3. With \<open>conf.Retry = 2\<close>: a job whose three attempts fail has made exactly three
  requests, is logged once and leaves no write job, and the in-flight counter is back
  at its value before the job; a job that fails twice and succeeds the third time leaves
  exactly one write job and no log line, and stays counted as in flight.
\<close>

theorem retry_limit_two:
  assumes two: "Retry (conf st) = 2"
      and u: "ImageUrl (GOOS_windows e) (Image_job job) = Some url"
      and r: "r = (\<lambda>k. ClientDo e (length (requests st) + k) (request_for job url))"
  shows "(\<not> succeeded (r 0) \<and> \<not> succeeded (r 1) \<and> \<not> succeeded (r 2) \<longrightarrow>
            (\<exists>st'. DownloadImageHandler e job st = Some (Returned st')
               \<and> requests st' = requests st @ replicate 3 (request_for job url)
               \<and> writeQueue st' = writeQueue st
               \<and> logs st' = logs st @ [fail_message (GOOS_windows e) job (r 2)]
               \<and> downloadingCount st' = downloadingCount st
               \<and> downloadStartCount st' = downloadStartCount st + 1))
       \<and> (\<not> succeeded (r 0) \<and> \<not> succeeded (r 1) \<and> succeeded (r 2) \<longrightarrow>
            (\<exists>st'. DownloadImageHandler e job st = Some (Returned st')
               \<and> requests st' = requests st @ replicate 3 (request_for job url)
               \<and> writeQueue st' = writeQueue st @ [write_job_for job (r 2)]
               \<and> logs st' = logs st
               \<and> downloadingCount st' = downloadingCount st + 1
               \<and> downloadStartCount st' = downloadStartCount st + 1))"
proof -
  have lim: "Retry (conf st) < 2 ^ 63 - 1" using two by simp
  have bud: "attempt_budget (Retry (conf st)) = Suc (Suc (Suc 0))"
    using two by (simp add: attempt_budget_def)
  note res = DownloadImageHandler_result[OF u lim, unfolded bud]
  show ?thesis
    unfolding res r
    by (simp add: delivered_def abandoned_def started_def numeral_3_eq_3)
qed


theorem retry_limit_two_witness:
  "(\<exists>st'. DownloadImageHandler env_down example_job idle_state = Some (Returned st')
       \<and> length (requests st') = 3 \<and> writeQueue st' = [] \<and> length (logs st') = 1
       \<and> downloadingCount st' = 0 \<and> downloadStartCount st' = 1)
   \<and> (\<exists>st'. DownloadImageHandler env_third example_job idle_state = Some (Returned st')
       \<and> length (requests st') = 3
       \<and> writeQueue st' = [\<lparr>Content = ''PNG'', FileName = ''/dl/en/T/1.webp''\<rparr>]
       \<and> logs st' = [] \<and> downloadingCount st' = 1 \<and> downloadStartCount st' = 1)"
proof -
  have two: "Retry (conf idle_state) = 2" by (simp add: idle_state_def example_conf_def)
  have u1: "ImageUrl (GOOS_windows env_down) (Image_job example_job)
              = Some ''https://ba.hitomi.la/webp/f/00/abc00f.webp''"
    by (simp add: env_down_def example_env_def example_job_def example_image_url)
  have u2: "ImageUrl (GOOS_windows env_third) (Image_job example_job)
              = Some ''https://ba.hitomi.la/webp/f/00/abc00f.webp''"
    by (simp add: env_third_def example_env_def example_job_def example_image_url)
  have w: "write_job_for example_job ok_response
             = \<lparr>Content = ''PNG'', FileName = ''/dl/en/T/1.webp''\<rparr>"
    by (simp add: write_job_for_def example_job_def example_image_def ok_response_def Split_def)
  have a: "\<exists>st'. DownloadImageHandler env_down example_job idle_state = Some (Returned st')
       \<and> length (requests st') = 3 \<and> writeQueue st' = [] \<and> length (logs st') = 1
       \<and> downloadingCount st' = 0 \<and> downloadStartCount st' = 1"
    using retry_limit_two[OF two u1 refl]
    by (auto simp: env_down_def example_env_def succeeded_def bad_response_def idle_state_def)
  have b: "\<exists>st'. DownloadImageHandler env_third example_job idle_state = Some (Returned st')
       \<and> length (requests st') = 3
       \<and> writeQueue st' = [\<lparr>Content = ''PNG'', FileName = ''/dl/en/T/1.webp''\<rparr>]
       \<and> logs st' = [] \<and> downloadingCount st' = 1 \<and> downloadStartCount st' = 1"
    using retry_limit_two[OF two u2 refl] w
    by (auto simp: env_third_def example_env_def succeeded_def bad_response_def ok_response_def
        idle_state_def)
  from a b show ?thesis by blast
qed


end
